theory Spec2Isabelle
  imports Main
begin

section \<open>The user collection and its documents\<close>

text \<open>
  The controllers of \<^verbatim>\<open>src/controllers/userControllers.ts\<close> read and write one
  Mongoose collection of user documents, send mail and sign a JSON web token. The
  embedding keeps the controllers' names; every handler takes the collection and the
  list of effects so far (the \<open>world\<close>) and returns its answer with the new world.
\<close>

text \<open>
  The password field of a document in memory is either the raw text the controller has
  just assigned or the representation the collection stores.
\<close>

datatype passwordField = Plain string | Derived string string

record user =
  uid :: nat
  name :: string
  email :: string
  password :: passwordField
  role :: string
  isVerified :: bool
  verificationToken :: "string option"
  verificationTokenExpires :: "int option"

text \<open>
  The two queries the controllers pass to \<^verbatim>\<open>User.findOne\<close>: by email, and by token with
  \<^verbatim>\<open>verificationTokenExpires: { $gt: new Date() }\<close>. Instants are milliseconds, as
  \<^verbatim>\<open>Date.now()\<close> counts them.
\<close>

datatype query = ByEmail string | ByToken string int

record mail =
  rcpt :: string
  subject :: string
  greeting :: string
  link :: string

datatype event = Queried query | Saved user | Sent mail | SendFailed mail

record world =
  users :: "user list"
  trace :: "event list"

text \<open>
  Process-wide configuration: the environment variables the controllers read, and the
  password derivation (salt, then raw password) of the user model.
\<close>

record cfg =
  JWT_SECRET :: string
  FRONTEND_URL :: string
  NODE_ENV :: string
  kdf :: "string \<Rightarrow> string \<Rightarrow> string"

text \<open>
  What one request draws from outside the program: the clock (\<^verbatim>\<open>Date.now()\<close>), the
  value of \<^verbatim>\<open>crypto.randomBytes(32).toString("hex")\<close>, the identifier given to a new
  document, the salt of a derivation, and whether the mail transport delivers.
\<close>

record env =
  now :: int
  randomHex :: string
  objectId :: nat
  salt :: string
  mailOk :: bool

record jwt =
  claimUserId :: nat
  claimRole :: string
  claimIat :: int
  claimExp :: int
  signingKey :: string

record cookie =
  cookieName :: string
  cookieValue :: jwt
  httpOnly :: bool
  secure :: bool
  maxAge :: int

datatype body = Error string | Message string | MessageToken string jwt

datatype failure = DispatchFailure | SigningFailure

text \<open>
  A handler answers with a status and a JSON body (and, for a login, a cookie), or hands
  an exception to the error middleware through \<^verbatim>\<open>next(err)\<close>.
\<close>

datatype outcome = Json nat body | CookieJson cookie nat body | Next failure

section \<open>Constants and helpers\<close>

definition TOKEN_EXPIRATION_MS :: int where
  "TOKEN_EXPIRATION_MS = 60 * 60 * 1000"

text \<open>\<^verbatim>\<open>JWT_EXPIRATION = "1d"\<close>, in the seconds the token library counts.\<close>

definition JWT_EXPIRATION :: int where
  "JWT_EXPIRATION = 24 * 60 * 60"

definition generateToken :: "env \<Rightarrow> string" where
  "generateToken e = randomHex e"

definition matches :: "query \<Rightarrow> user \<Rightarrow> bool" where
  "matches q u =
     (case q of
        ByEmail a \<Rightarrow> email u = a
      | ByToken t d \<Rightarrow>
          verificationToken u = Some t \<and>
          (case verificationTokenExpires u of None \<Rightarrow> False | Some x \<Rightarrow> d < x))"

definition findOne :: "query \<Rightarrow> world \<Rightarrow> user option \<times> world" where
  "findOne q w = (find (matches q) (users w), w\<lparr>trace := trace w @ [Queried q]\<rparr>)"

text \<open>
  Writing a document: the document of the collection with the same identifier is
  replaced, a document with a new identifier is added at the end.
\<close>

fun persist :: "user \<Rightarrow> user list \<Rightarrow> user list" where
  "persist d [] = [d]"
| "persist d (x # xs) = (if uid x = uid d then d # xs else x # persist d xs)"

text \<open>
  Modelled from the spec: the save hook of the user model (\<^verbatim>\<open>models/User\<close>, not among
  the sources), after section 4.3: a raw password is put through the salted derivation
  before it is stored, with the salt drawn for this save; a stored representation is left
  as it is.
\<close>

definition preSave :: "cfg \<Rightarrow> env \<Rightarrow> user \<Rightarrow> user" where
  "preSave c e u =
     (case password u of
        Plain p \<Rightarrow> u\<lparr>password := Derived (salt e) (kdf c (salt e) p)\<rparr>
      | Derived s d \<Rightarrow> u)"

text \<open>
  Modelled from the spec: \<open>comparePassword\<close> of the user model (\<^verbatim>\<open>models/User\<close>, not
  among the sources), after section 4.3: a candidate matches when deriving it with the
  stored salt gives the stored value.
\<close>

definition comparePassword :: "cfg \<Rightarrow> user \<Rightarrow> string \<Rightarrow> bool" where
  "comparePassword c u candidate =
     (case password u of
        Plain p \<Rightarrow> False
      | Derived s d \<Rightarrow> kdf c s candidate = d)"

text \<open>
  \<^verbatim>\<open>user.save()\<close>: the hook runs, the document is written and the write is recorded. The
  handlers run one at a time, so the write itself does not fail.
\<close>

definition save :: "cfg \<Rightarrow> env \<Rightarrow> user \<Rightarrow> world \<Rightarrow> user \<times> world" where
  "save c e u w =
     (let d = preSave c e u
      in (d, w\<lparr>users := persist d (users w), trace := trace w @ [Saved d]\<rparr>))"

definition sendEmail :: "env \<Rightarrow> mail \<Rightarrow> world \<Rightarrow> bool \<times> world" where
  "sendEmail e m w =
     (mailOk e, w\<lparr>trace := trace w @ [if mailOk e then Sent m else SendFailed m]\<rparr>)"

text \<open>A template literal prints an absent value as the word undefined.\<close>

definition tokenText :: "string option \<Rightarrow> string" where
  "tokenText t = (case t of None \<Rightarrow> ''undefined'' | Some s \<Rightarrow> s)"

definition setVerificationToken :: "cfg \<Rightarrow> env \<Rightarrow> user \<Rightarrow> world \<Rightarrow> user \<times> world" where
  "setVerificationToken c e u w =
     save c e
       (u\<lparr>verificationToken := Some (generateToken e),
          verificationTokenExpires := Some (now e + TOKEN_EXPIRATION_MS)\<rparr>) w"

definition sendVerificationEmail :: "cfg \<Rightarrow> env \<Rightarrow> user \<Rightarrow> world \<Rightarrow> bool \<times> world" where
  "sendVerificationEmail c e u w =
     (case setVerificationToken c e u w of
        (u', w') \<Rightarrow>
          sendEmail e
            \<lparr>rcpt = email u', subject = ''Verify Your Email'', greeting = name u',
             link = FRONTEND_URL c @ ''/api/users/verify-email?token=''
                      @ tokenText (verificationToken u')\<rparr> w')"

text \<open>
  The token library: signing needs a non-empty key; the claims carry the issue time in
  seconds and the expiry \<open>JWT_EXPIRATION\<close> later.
\<close>

definition jwt_sign :: "nat \<Rightarrow> string \<Rightarrow> string \<Rightarrow> int \<Rightarrow> jwt option" where
  "jwt_sign i r secret ms =
     (if secret = [] then None
      else Some \<lparr>claimUserId = i, claimRole = r, claimIat = ms div 1000,
                 claimExp = ms div 1000 + JWT_EXPIRATION, signingKey = secret\<rparr>)"

section \<open>The controllers\<close>

definition registerUser ::
  "cfg \<Rightarrow> env \<Rightarrow> string \<Rightarrow> string \<Rightarrow> string \<Rightarrow> string \<Rightarrow> world \<Rightarrow> outcome \<times> world" where
  "registerUser c e nm em pw rl w =
     (case findOne (ByEmail em) w of
        (Some u, w1) \<Rightarrow>
          if isVerified u
          then (Json 400 (Error ''Email already verified. Please log in.''), w1)
          else (case sendVerificationEmail c e u w1 of
                  (ok, w2) \<Rightarrow>
                    if ok
                    then (Json 200 (Message ''Verification email resent. Please check your inbox.''), w2)
                    else (Next DispatchFailure, w2))
      | (None, w1) \<Rightarrow>
          (case sendVerificationEmail c e
                  \<lparr>uid = objectId e, name = nm, email = em, password = Plain pw, role = rl,
                   isVerified = False, verificationToken = None,
                   verificationTokenExpires = None\<rparr> w1 of
             (ok, w2) \<Rightarrow>
               if ok
               then (Json 201 (Message ''Verification email sent. Please check your inbox.''), w2)
               else (Next DispatchFailure, w2)))"

text \<open>\<^verbatim>\<open>!token\<close> holds of an absent parameter and of the empty string.\<close>

definition tokenMissing :: "string option \<Rightarrow> bool" where
  "tokenMissing t = (case t of None \<Rightarrow> True | Some s \<Rightarrow> s = [])"

definition verifyEmail :: "cfg \<Rightarrow> env \<Rightarrow> string option \<Rightarrow> world \<Rightarrow> outcome \<times> world" where
  "verifyEmail c e token w =
     (if tokenMissing token
      then (Json 400 (Error ''Verification token is missing.''), w)
      else (case findOne (ByToken (the token) (now e)) w of
              (None, w1) \<Rightarrow> (Json 400 (Error ''Invalid or expired verification token.''), w1)
            | (Some u, w1) \<Rightarrow>
                (case save c e
                        (u\<lparr>isVerified := True, verificationToken := None,
                           verificationTokenExpires := None\<rparr>) w1 of
                   (u', w2) \<Rightarrow>
                     (Json 200 (Message ''Email verified successfully. You can now log in.''), w2))))"

definition loginUser :: "cfg \<Rightarrow> env \<Rightarrow> string \<Rightarrow> string \<Rightarrow> world \<Rightarrow> outcome \<times> world" where
  "loginUser c e em pw w =
     (case findOne (ByEmail em) w of
        (user, w1) \<Rightarrow>
          if user \<noteq> None \<and> \<not> isVerified (the user)
          then (Json 403 (Error ''Email not verified. Please check your inbox.''), w1)
          else if user = None \<or> \<not> comparePassword c (the user) pw
          then (Json 401 (Error ''Invalid email or password''), w1)
          else (case jwt_sign (uid (the user)) (role (the user)) (JWT_SECRET c) (now e) of
                  None \<Rightarrow> (Next SigningFailure, w1)
                | Some token \<Rightarrow>
                    (CookieJson
                       \<lparr>cookieName = ''token'', cookieValue = token, httpOnly = True,
                        secure = (NODE_ENV c = ''production''),
                        maxAge = 24 * 60 * 60 * 1000\<rparr>
                       200 (MessageToken ''Login successful'' token), w1)))"

definition forgotPassword :: "cfg \<Rightarrow> env \<Rightarrow> string \<Rightarrow> world \<Rightarrow> outcome \<times> world" where
  "forgotPassword c e em w =
     (case findOne (ByEmail em) w of
        (None, w1) \<Rightarrow>
          (Json 200 (Message ''If a user exists with that email, a reset link has been sent.''), w1)
      | (Some u, w1) \<Rightarrow>
          (case save c e
                  (u\<lparr>verificationToken := Some (generateToken e),
                     verificationTokenExpires := Some (now e + TOKEN_EXPIRATION_MS)\<rparr>) w1 of
             (u', w2) \<Rightarrow>
               (case sendEmail e
                       \<lparr>rcpt = email u', subject = ''Password Reset Request'',
                        greeting = name u',
                        link = FRONTEND_URL c @ ''/api/users/reset-password?token=''
                                 @ tokenText (verificationToken u')\<rparr> w2 of
                  (ok, w3) \<Rightarrow>
                    if ok
                    then (Json 200 (Message ''If a user exists with that email, a reset link has been sent.''), w3)
                    else (Next DispatchFailure, w3))))"

definition resetPassword ::
  "cfg \<Rightarrow> env \<Rightarrow> string option \<Rightarrow> string \<Rightarrow> world \<Rightarrow> outcome \<times> world" where
  "resetPassword c e token pw w =
     (if tokenMissing token
      then (Json 400 (Error ''Reset token is missing.''), w)
      else (case findOne (ByToken (the token) (now e)) w of
              (None, w1) \<Rightarrow>
                (Json 400 (Error ''Invalid or expired reset token. Please try again.''), w1)
            | (Some u, w1) \<Rightarrow>
                (case save c e
                        (u\<lparr>password := Plain pw, verificationToken := None,
                           verificationTokenExpires := None\<rparr>) w1 of
                   (u', w2) \<Rightarrow> (Json 200 (Message ''Password reset successfully.''), w2))))"

section \<open>Invariants of the collection, observations, sample data\<close>

text \<open>
  The collection keeps document identifiers distinct, and the tokens of the generator
  do not repeat: two documents holding the same token are the same document.
\<close>

definition storeOk :: "user list \<Rightarrow> bool" where
  "storeOk xs =
     (distinct (map uid xs) \<and>
      (\<forall>u\<in>set xs. \<forall>v\<in>set xs.
         verificationToken u \<noteq> None \<and> verificationToken u = verificationToken v \<longrightarrow> uid u = uid v))"

text \<open>The session credential an answer carries, in its body or in its cookie.\<close>

fun credentialOf :: "outcome \<Rightarrow> jwt option" where
  "credentialOf (Json s (MessageToken m j)) = Some j"
| "credentialOf (Json s b) = None"
| "credentialOf (CookieJson ck s b) = Some (cookieValue ck)"
| "credentialOf (Next f) = None"

definition demoCfg :: cfg where
  "demoCfg = \<lparr>JWT_SECRET = ''k'', FRONTEND_URL = ''http://h'', NODE_ENV = ''test'',
              kdf = (\<lambda>s p. s @ p)\<rparr>"

definition demoEnv :: env where
  "demoEnv = \<lparr>now = 1000, randomHex = ''T2'', objectId = 2, salt = ''s1'', mailOk = True\<rparr>"

definition alice :: user where
  "alice = \<lparr>uid = 1, name = ''Alice'', email = ''alice@example.com'',
            password = Derived ''s0'' ''s0old'', role = ''student'', isVerified = False,
            verificationToken = Some ''T1'', verificationTokenExpires = Some 5000\<rparr>"

definition demoWorld :: world where
  "demoWorld = \<lparr>users = [alice], trace = []\<rparr>"

text \<open>
  The document that \<open>setVerificationToken\<close> and \<open>forgotPassword\<close> write for a document
  \<open>u\<close>, and the two messages handed to \<open>sendEmail\<close>.
\<close>

definition withToken :: "cfg \<Rightarrow> env \<Rightarrow> user \<Rightarrow> user" where
  "withToken c e u =
     preSave c e (u\<lparr>verificationToken := Some (generateToken e),
                    verificationTokenExpires := Some (now e + TOKEN_EXPIRATION_MS)\<rparr>)"

definition verificationMail :: "cfg \<Rightarrow> env \<Rightarrow> user \<Rightarrow> mail" where
  "verificationMail c e u =
     \<lparr>rcpt = email u, subject = ''Verify Your Email'', greeting = name u,
      link = FRONTEND_URL c @ ''/api/users/verify-email?token='' @ generateToken e\<rparr>"

definition resetMail :: "cfg \<Rightarrow> env \<Rightarrow> user \<Rightarrow> mail" where
  "resetMail c e u =
     \<lparr>rcpt = email u, subject = ''Password Reset Request'', greeting = name u,
      link = FRONTEND_URL c @ ''/api/users/reset-password?token='' @ generateToken e\<rparr>"

text \<open>The document \<open>registerUser\<close> builds with \<^verbatim>\<open>new User\<close>.\<close>

definition newUser :: "env \<Rightarrow> string \<Rightarrow> string \<Rightarrow> string \<Rightarrow> string \<Rightarrow> user" where
  "newUser e nm em pw rl =
     \<lparr>uid = objectId e, name = nm, email = em, password = Plain pw, role = rl,
      isVerified = False, verificationToken = None, verificationTokenExpires = None\<rparr>"

definition bob :: user where
  "bob = \<lparr>uid = 7, name = ''Bob'', email = ''bob@example.com'',
          password = Derived ''s0'' ''s0old'', role = ''admin'', isVerified = True,
          verificationToken = Some ''R1'', verificationTokenExpires = Some 5000\<rparr>"

definition bobWorld :: world where
  "bobWorld = \<lparr>users = [bob], trace = []\<rparr>"

section \<open>Facts about the collection\<close>

lemma storeOk_distinct: "storeOk xs \<Longrightarrow> distinct (map uid xs)"
  unfolding storeOk_def by blast

lemma storeOk_token:
  "storeOk xs \<Longrightarrow> u \<in> set xs \<Longrightarrow> v \<in> set xs \<Longrightarrow>
   verificationToken u = Some t \<Longrightarrow> verificationToken v = Some t \<Longrightarrow> uid u = uid v"
  unfolding storeOk_def by (metis option.distinct(1))

lemma persist_mem: "d \<in> set (persist d xs)"
  by (induction xs) auto

lemma persist_subset: "v \<in> set (persist d xs) \<Longrightarrow> v = d \<or> v \<in> set xs"
  by (induction xs) (auto split: if_splits)

lemma persist_other:
  "distinct (map uid xs) \<Longrightarrow> v \<in> set (persist d xs) \<Longrightarrow> v = d \<or> (v \<in> set xs \<and> uid v \<noteq> uid d)"
proof (induction xs)
  case Nil
  then show ?case by simp
next
  case (Cons x xs)
  show ?case
  proof (cases "uid x = uid d")
    case True
    with Cons.prems have "v = d \<or> v \<in> set xs" by simp
    moreover have "uid w \<noteq> uid d" if "w \<in> set xs" for w
      using Cons.prems(1) True that by (auto simp: image_iff)
    ultimately show ?thesis by auto
  next
    case False
    with Cons show ?thesis by auto
  qed
qed

lemma persist_keeps: "v \<in> set xs \<Longrightarrow> uid v \<noteq> uid d \<Longrightarrow> v \<in> set (persist d xs)"
  by (induction xs) auto


lemma persist_uids:
  "map uid (persist d xs) = (if uid d \<in> uid ` set xs then map uid xs else map uid xs @ [uid d])"
  by (induction xs) auto

lemma persist_distinct: "distinct (map uid xs) \<Longrightarrow> distinct (map uid (persist d xs))"
  by (simp add: persist_uids)

lemma find_mem: "find P xs = Some u \<Longrightarrow> u \<in> set xs \<and> P u"
  by (induction xs) (auto split: if_splits)

lemma find_persist_same:
  "distinct (map uid xs) \<Longrightarrow> find P xs = Some u \<Longrightarrow> uid d = uid u \<Longrightarrow> P d \<Longrightarrow>
   find P (persist d xs) = Some d"
proof (induction xs)
  case Nil
  then show ?case by simp
next
  case (Cons x xs)
  show ?case
  proof (cases "uid x = uid d")
    case True
    then show ?thesis using Cons.prems by simp
  next
    case False
    have "x \<noteq> u" using False Cons.prems(3) by auto
    with Cons.prems(2) have nx: "\<not> P x" and rest: "find P xs = Some u"
      by (auto split: if_splits)
    from Cons.prems(1) have "distinct (map uid xs)" by simp
    from Cons.IH [OF this rest Cons.prems(3) Cons.prems(4)] nx False
    show ?thesis by simp
  qed
qed

lemma token_gone:
  assumes "storeOk xs" and "u \<in> set xs" and "verificationToken u = Some t"
    and "uid d = uid u" and "verificationToken d \<noteq> Some t"
  shows "find (matches (ByToken t n)) (persist d xs) = None"
proof -
  have "\<not> matches (ByToken t n) v" if v: "v \<in> set (persist d xs)" for v
  proof (cases "v = d")
    case True
    with assms(5) show ?thesis by (simp add: matches_def)
  next
    case False
    with v assms(1) have vin: "v \<in> set xs" and ne: "uid v \<noteq> uid d"
      using persist_other [of xs v d] storeOk_distinct [of xs] by auto
    show ?thesis
    proof
      assume "matches (ByToken t n) v"
      then have "verificationToken v = Some t" by (simp add: matches_def)
      then have "uid u = uid v"
        using storeOk_token [OF assms(1) assms(2) vin assms(3)] by simp
      with ne assms(4) show False by simp
    qed
  qed
  then show ?thesis by (simp add: find_None_iff)
qed

section \<open>Facts about the handlers\<close>

lemma verifyEmail_miss:
  assumes "t \<noteq> []" and "find (matches (ByToken t (now e))) (users w) = None"
  shows "verifyEmail c e (Some t) w =
     (Json 400 (Error ''Invalid or expired verification token.''),
      w\<lparr>trace := trace w @ [Queried (ByToken t (now e))]\<rparr>)"
  using assms by (simp add: verifyEmail_def tokenMissing_def findOne_def)

lemma verifyEmail_hit:
  assumes "t \<noteq> []" and "find (matches (ByToken t (now e))) (users w) = Some u"
    and "d = preSave c e (u\<lparr>isVerified := True, verificationToken := None,
                            verificationTokenExpires := None\<rparr>)"
  shows "verifyEmail c e (Some t) w =
     (Json 200 (Message ''Email verified successfully. You can now log in.''),
      w\<lparr>users := persist d (users w),
        trace := trace w @ [Queried (ByToken t (now e)), Saved d]\<rparr>)"
  using assms by (simp add: verifyEmail_def tokenMissing_def findOne_def save_def Let_def)

lemma resetPassword_miss:
  assumes "t \<noteq> []" and "find (matches (ByToken t (now e))) (users w) = None"
  shows "resetPassword c e (Some t) pw w =
     (Json 400 (Error ''Invalid or expired reset token. Please try again.''),
      w\<lparr>trace := trace w @ [Queried (ByToken t (now e))]\<rparr>)"
  using assms by (simp add: resetPassword_def tokenMissing_def findOne_def)

lemma resetPassword_hit:
  assumes "t \<noteq> []" and "find (matches (ByToken t (now e))) (users w) = Some u"
    and "d = preSave c e (u\<lparr>password := Plain pw, verificationToken := None,
                            verificationTokenExpires := None\<rparr>)"
  shows "resetPassword c e (Some t) pw w =
     (Json 200 (Message ''Password reset successfully.''),
      w\<lparr>users := persist d (users w),
        trace := trace w @ [Queried (ByToken t (now e)), Saved d]\<rparr>)"
  using assms by (simp add: resetPassword_def tokenMissing_def findOne_def save_def Let_def)

lemma preSave_fields:
  "uid (preSave c e u) = uid u" "email (preSave c e u) = email u"
  "name (preSave c e u) = name u" "role (preSave c e u) = role u"
  "isVerified (preSave c e u) = isVerified u"
  "verificationToken (preSave c e u) = verificationToken u"
  "verificationTokenExpires (preSave c e u) = verificationTokenExpires u"
  by (simp_all add: preSave_def split: passwordField.split)

lemma matches_token:
  "matches (ByToken t n) u \<longleftrightarrow>
     verificationToken u = Some t \<and> (\<exists>x. verificationTokenExpires u = Some x \<and> n < x)"
  by (simp add: matches_def split: option.split)

lemma find_exists: "(\<exists>u. find P xs = Some u) \<longleftrightarrow> (\<exists>u\<in>set xs. P u)"
  using find_None_iff [of P xs] by auto

lemma verifyEmail_success_iff:
  assumes "t \<noteq> []"
  shows "fst (verifyEmail c e (Some t) w) =
           Json 200 (Message ''Email verified successfully. You can now log in.'')
         \<longleftrightarrow> (\<exists>u. find (matches (ByToken t (now e))) (users w) = Some u)"
proof (cases "find (matches (ByToken t (now e))) (users w)")
  case None
  with assms show ?thesis by (simp add: verifyEmail_miss)
next
  case (Some u)
  with assms show ?thesis by (simp add: verifyEmail_hit)
qed

lemma resetPassword_success_iff:
  assumes "t \<noteq> []"
  shows "fst (resetPassword c e (Some t) pw w) = Json 200 (Message ''Password reset successfully.'')
         \<longleftrightarrow> (\<exists>u. find (matches (ByToken t (now e))) (users w) = Some u)"
proof (cases "find (matches (ByToken t (now e))) (users w)")
  case None
  with assms show ?thesis by (simp add: resetPassword_miss)
next
  case (Some u)
  with assms show ?thesis by (simp add: resetPassword_hit)
qed

lemma verifyEmail_empty: "verifyEmail c e (Some []) w = (Json 400 (Error ''Verification token is missing.''), w)"
  by (simp add: verifyEmail_def tokenMissing_def)

lemma resetPassword_empty: "resetPassword c e (Some []) pw w = (Json 400 (Error ''Reset token is missing.''), w)"
  by (simp add: resetPassword_def tokenMissing_def)

lemmas demo_defs = demoCfg_def demoEnv_def demoWorld_def alice_def bob_def bobWorld_def

section \<open>Email verification\<close>

text \<open>
  C1 (amended). For every non-empty token, \<open>verifyEmail\<close> succeeds exactly when some
  account holds that token with an expiry strictly after the current instant. On success
  the account found is saved once, with \<open>isVerified\<close> set and both token fields cleared
  in that one save. Otherwise the answer is the invalid-or-expired error, the same for a
  wrong token and for an expired one, and the collection is untouched.
\<close>

theorem verifyEmail_token_gate:
  assumes "t \<noteq> []"
  shows "(fst (verifyEmail c e (Some t) w) =
            Json 200 (Message ''Email verified successfully. You can now log in.'')
          \<longleftrightarrow> (\<exists>u\<in>set (users w). verificationToken u = Some t \<and>
                 (\<exists>x. verificationTokenExpires u = Some x \<and> now e < x)))
       \<and> (fst (verifyEmail c e (Some t) w) =
            Json 200 (Message ''Email verified successfully. You can now log in.'')
          \<longrightarrow> (\<exists>u d. find (matches (ByToken t (now e))) (users w) = Some u \<and>
                 uid d = uid u \<and> email d = email u \<and>
                 isVerified d \<and> verificationToken d = None \<and>
                 verificationTokenExpires d = None \<and>
                 snd (verifyEmail c e (Some t) w) =
                   w\<lparr>users := persist d (users w),
                     trace := trace w @ [Queried (ByToken t (now e)), Saved d]\<rparr>))
       \<and> (fst (verifyEmail c e (Some t) w) \<noteq>
            Json 200 (Message ''Email verified successfully. You can now log in.'')
          \<longrightarrow> verifyEmail c e (Some t) w =
                (Json 400 (Error ''Invalid or expired verification token.''),
                 w\<lparr>trace := trace w @ [Queried (ByToken t (now e))]\<rparr>))"
proof (intro conjI impI)
  show "fst (verifyEmail c e (Some t) w) =
            Json 200 (Message ''Email verified successfully. You can now log in.'')
          \<longleftrightarrow> (\<exists>u\<in>set (users w). verificationToken u = Some t \<and>
                 (\<exists>x. verificationTokenExpires u = Some x \<and> now e < x))"
    using assms by (simp add: verifyEmail_success_iff find_exists matches_token)
next
  assume "fst (verifyEmail c e (Some t) w) =
            Json 200 (Message ''Email verified successfully. You can now log in.'')"
  then obtain u where u: "find (matches (ByToken t (now e))) (users w) = Some u"
    using assms by (auto simp: verifyEmail_success_iff)
  define d where "d = preSave c e (u\<lparr>isVerified := True, verificationToken := None,
                            verificationTokenExpires := None\<rparr>)"
  have "snd (verifyEmail c e (Some t) w) =
          w\<lparr>users := persist d (users w),
            trace := trace w @ [Queried (ByToken t (now e)), Saved d]\<rparr>"
    using verifyEmail_hit [OF assms u d_def] by simp
  moreover have "uid d = uid u" "email d = email u" "isVerified d"
    "verificationToken d = None" "verificationTokenExpires d = None"
    by (simp_all add: d_def preSave_fields)
  ultimately show "\<exists>u d. find (matches (ByToken t (now e))) (users w) = Some u \<and>
                 uid d = uid u \<and> email d = email u \<and>
                 isVerified d \<and> verificationToken d = None \<and>
                 verificationTokenExpires d = None \<and>
                 snd (verifyEmail c e (Some t) w) =
                   w\<lparr>users := persist d (users w),
                     trace := trace w @ [Queried (ByToken t (now e)), Saved d]\<rparr>"
    using u by blast
next
  assume "fst (verifyEmail c e (Some t) w) \<noteq>
            Json 200 (Message ''Email verified successfully. You can now log in.'')"
  then have "find (matches (ByToken t (now e))) (users w) = None"
    using assms by (cases "find (matches (ByToken t (now e))) (users w)")
      (auto simp: verifyEmail_success_iff)
  then show "verifyEmail c e (Some t) w =
                (Json 400 (Error ''Invalid or expired verification token.''),
                 w\<lparr>trace := trace w @ [Queried (ByToken t (now e))]\<rparr>)"
    using assms by (simp add: verifyEmail_miss)
qed

text \<open>
  Witness for C1: alice's token \<open>T1\<close> verifies before its expiry, is refused at the
  expiry instant, and an unknown token is refused with the same answer.
\<close>

theorem verifyEmail_token_gate_witness:
  "''T1'' \<noteq> [] \<and>
   verifyEmail demoCfg demoEnv (Some ''T1'') demoWorld =
     (Json 200 (Message ''Email verified successfully. You can now log in.''),
      \<lparr>users = [alice\<lparr>isVerified := True, verificationToken := None,
                       verificationTokenExpires := None\<rparr>],
       trace = [Queried (ByToken ''T1'' 1000),
                Saved (alice\<lparr>isVerified := True, verificationToken := None,
                              verificationTokenExpires := None\<rparr>)]\<rparr>) \<and>
   verifyEmail demoCfg (demoEnv\<lparr>now := 5000\<rparr>) (Some ''T1'') demoWorld =
     (Json 400 (Error ''Invalid or expired verification token.''),
      \<lparr>users = [alice], trace = [Queried (ByToken ''T1'' 5000)]\<rparr>) \<and>
   verifyEmail demoCfg demoEnv (Some ''T9'') demoWorld =
     (Json 400 (Error ''Invalid or expired verification token.''),
      \<lparr>users = [alice], trace = [Queried (ByToken ''T9'' 1000)]\<rparr>)"
  using verifyEmail_token_gate [of "''T1''" demoCfg demoEnv demoWorld]
    verifyEmail_token_gate [of "''T1''" demoCfg "demoEnv\<lparr>now := 5000\<rparr>" demoWorld]
    verifyEmail_token_gate [of "''T9''" demoCfg demoEnv demoWorld]
  by (simp add: demo_defs verifyEmail_def tokenMissing_def findOne_def save_def preSave_def Let_def
      matches_def)

text \<open>
  Counterexample to C1 as stated: the empty token matches no account, yet the answer is
  the missing-token error and not the invalid-or-expired one.
\<close>

theorem verifyEmail_empty_token_counterexample:
  "find (matches (ByToken [] (now demoEnv))) (users demoWorld) = None \<and>
   fst (verifyEmail demoCfg demoEnv (Some []) demoWorld)
     \<noteq> Json 400 (Error ''Invalid or expired verification token.'')"
  by (simp add: demo_defs verifyEmail_def tokenMissing_def matches_def)

text \<open>
  C10. With the token parameter absent, \<open>verifyEmail\<close> and \<open>resetPassword\<close> answer with
  their own missing-token errors, which differ from the invalid-or-expired errors, and
  return the world as it was: no query is issued and no document is written.
\<close>

theorem missing_token_short_circuit:
  "verifyEmail c e None w = (Json 400 (Error ''Verification token is missing.''), w) \<and>
   resetPassword c e None pw w = (Json 400 (Error ''Reset token is missing.''), w) \<and>
   fst (verifyEmail c e None w) \<noteq> Json 400 (Error ''Invalid or expired verification token.'') \<and>
   fst (resetPassword c e None pw w)
     \<noteq> Json 400 (Error ''Invalid or expired reset token. Please try again.'')"
  by (simp add: verifyEmail_def resetPassword_def tokenMissing_def)

section \<open>Single use of a token\<close>

lemma consumed_token_gone:
  assumes ok: "storeOk (users w)"
    and u: "find (matches (ByToken t n)) (users w) = Some u"
    and d: "uid d = uid u" "verificationToken d = None"
  shows "find (matches (ByToken t n2)) (persist d (users w)) = None"
proof -
  from u have "u \<in> set (users w)" and "verificationToken u = Some t"
    using find_mem [of "matches (ByToken t n)" "users w" u] by (simp_all add: matches_token)
  with ok d show ?thesis by (simp add: token_gone)
qed

text \<open>
  C2. In a collection whose tokens do not repeat, a successful \<open>verifyEmail\<close> or
  \<open>resetPassword\<close> writes the account once, with both token fields cleared in that
  save, and the same token submitted again to either handler, at any later instant,
  gets the invalid-or-expired error.
\<close>

theorem token_single_use:
  assumes ok: "storeOk (users w)"
    and first:
      "r = verifyEmail c e (Some t) w \<and>
         fst r = Json 200 (Message ''Email verified successfully. You can now log in.'')
       \<or> r = resetPassword c e (Some t) pw w \<and>
         fst r = Json 200 (Message ''Password reset successfully.'')"
  shows "(\<exists>d. d \<in> set (users (snd r)) \<and>
              trace (snd r) = trace w @ [Queried (ByToken t (now e)), Saved d] \<and>
              verificationToken d = None \<and> verificationTokenExpires d = None)
       \<and> verifyEmail c e2 (Some t) (snd r) =
           (Json 400 (Error ''Invalid or expired verification token.''),
            (snd r)\<lparr>trace := trace (snd r) @ [Queried (ByToken t (now e2))]\<rparr>)
       \<and> resetPassword c e2 (Some t) pw2 (snd r) =
           (Json 400 (Error ''Invalid or expired reset token. Please try again.''),
            (snd r)\<lparr>trace := trace (snd r) @ [Queried (ByToken t (now e2))]\<rparr>)"
proof -
  have ne: "t \<noteq> []"
    using first by (auto simp: verifyEmail_empty resetPassword_empty)
  obtain u where u: "find (matches (ByToken t (now e))) (users w) = Some u"
    using first ne by (auto simp: verifyEmail_success_iff resetPassword_success_iff)
  obtain d where snd_r: "snd r = w\<lparr>users := persist d (users w),
        trace := trace w @ [Queried (ByToken t (now e)), Saved d]\<rparr>"
    and d: "uid d = uid u" "verificationToken d = None" "verificationTokenExpires d = None"
  proof (cases "r = verifyEmail c e (Some t) w")
    case True
    show ?thesis
      by (rule that [of "preSave c e (u\<lparr>isVerified := True, verificationToken := None,
            verificationTokenExpires := None\<rparr>)"])
        (simp_all add: True verifyEmail_hit [OF ne u refl] preSave_fields)
  next
    case False
    with first have "r = resetPassword c e (Some t) pw w" by blast
    then show ?thesis
      by (intro that [of "preSave c e (u\<lparr>password := Plain pw, verificationToken := None,
            verificationTokenExpires := None\<rparr>)"])
        (simp_all add: resetPassword_hit [OF ne u refl] preSave_fields)
  qed
  have gone: "find (matches (ByToken t (now e2))) (users (snd r)) = None"
    using consumed_token_gone [OF ok u d(1,2)] by (simp add: snd_r)
  have "d \<in> set (users (snd r))" by (simp add: snd_r persist_mem)
  moreover have "trace (snd r) = trace w @ [Queried (ByToken t (now e)), Saved d]"
    by (simp add: snd_r)
  ultimately have "\<exists>d. d \<in> set (users (snd r)) \<and>
              trace (snd r) = trace w @ [Queried (ByToken t (now e)), Saved d] \<and>
              verificationToken d = None \<and> verificationTokenExpires d = None"
    using d by blast
  then show ?thesis
    using verifyEmail_miss [OF ne gone] resetPassword_miss [OF ne gone] by blast
qed

text \<open>
  Witness for C2: alice's token \<open>T1\<close>, consumed by either handler, is refused by both
  afterwards.
\<close>

theorem token_single_use_witness:
  "storeOk (users demoWorld) \<and>
   fst (verifyEmail demoCfg demoEnv (Some ''T1'') demoWorld) =
     Json 200 (Message ''Email verified successfully. You can now log in.'') \<and>
   fst (verifyEmail demoCfg demoEnv (Some ''T1'')
          (snd (verifyEmail demoCfg demoEnv (Some ''T1'') demoWorld))) =
     Json 400 (Error ''Invalid or expired verification token.'') \<and>
   fst (resetPassword demoCfg demoEnv (Some ''T1'') ''new''
          (snd (verifyEmail demoCfg demoEnv (Some ''T1'') demoWorld))) =
     Json 400 (Error ''Invalid or expired reset token. Please try again.'') \<and>
   fst (resetPassword demoCfg demoEnv (Some ''T1'') ''new'' demoWorld) =
     Json 200 (Message ''Password reset successfully.'') \<and>
   fst (verifyEmail demoCfg demoEnv (Some ''T1'')
          (snd (resetPassword demoCfg demoEnv (Some ''T1'') ''new'' demoWorld))) =
     Json 400 (Error ''Invalid or expired verification token.'') \<and>
   fst (resetPassword demoCfg demoEnv (Some ''T1'') ''new''
          (snd (resetPassword demoCfg demoEnv (Some ''T1'') ''new'' demoWorld))) =
     Json 400 (Error ''Invalid or expired reset token. Please try again.'')"
proof -
  have ok: "storeOk (users demoWorld)" by (simp add: storeOk_def demo_defs)
  have v: "fst (verifyEmail demoCfg demoEnv (Some ''T1'') demoWorld) =
     Json 200 (Message ''Email verified successfully. You can now log in.'')"
    by (simp add: demo_defs verifyEmail_def tokenMissing_def findOne_def save_def preSave_def
        matches_def Let_def)
  have r: "fst (resetPassword demoCfg demoEnv (Some ''T1'') ''new'' demoWorld) =
     Json 200 (Message ''Password reset successfully.'')"
    by (simp add: demo_defs resetPassword_def tokenMissing_def findOne_def save_def preSave_def
        matches_def Let_def)
  show ?thesis
    using ok v r
      token_single_use [of demoWorld "verifyEmail demoCfg demoEnv (Some ''T1'') demoWorld"
        demoCfg demoEnv "''T1''" "''new''" demoEnv "''new''"]
      token_single_use [of demoWorld "resetPassword demoCfg demoEnv (Some ''T1'') ''new'' demoWorld"
        demoCfg demoEnv "''T1''" "''new''" demoEnv "''new''"]
    by simp
qed

section \<open>Login\<close>

lemma loginUser_world:
  "snd (loginUser c e em pw w) = w\<lparr>trace := trace w @ [Queried (ByEmail em)]\<rparr>"
  by (simp add: loginUser_def findOne_def split: option.split)

lemma loginUser_absent:
  "find (matches (ByEmail em)) (users w) = None \<Longrightarrow>
   fst (loginUser c e em pw w) = Json 401 (Error ''Invalid email or password'')"
  by (simp add: loginUser_def findOne_def)

lemma loginUser_unverified:
  "find (matches (ByEmail em)) (users w) = Some u \<Longrightarrow> \<not> isVerified u \<Longrightarrow>
   fst (loginUser c e em pw w) = Json 403 (Error ''Email not verified. Please check your inbox.'')"
  by (simp add: loginUser_def findOne_def)

lemma loginUser_mismatch:
  "find (matches (ByEmail em)) (users w) = Some u \<Longrightarrow> isVerified u \<Longrightarrow>
   \<not> comparePassword c u pw \<Longrightarrow>
   fst (loginUser c e em pw w) = Json 401 (Error ''Invalid email or password'')"
  by (simp add: loginUser_def findOne_def)

lemma loginUser_granted:
  "find (matches (ByEmail em)) (users w) = Some u \<Longrightarrow> isVerified u \<Longrightarrow>
   comparePassword c u pw \<Longrightarrow> JWT_SECRET c \<noteq> [] \<Longrightarrow>
   fst (loginUser c e em pw w) =
     CookieJson
       \<lparr>cookieName = ''token'',
        cookieValue = \<lparr>claimUserId = uid u, claimRole = role u, claimIat = now e div 1000,
                       claimExp = now e div 1000 + 86400, signingKey = JWT_SECRET c\<rparr>,
        httpOnly = True, secure = (NODE_ENV c = ''production''), maxAge = 86400000\<rparr>
       200
       (MessageToken ''Login successful''
          \<lparr>claimUserId = uid u, claimRole = role u, claimIat = now e div 1000,
           claimExp = now e div 1000 + 86400, signingKey = JWT_SECRET c\<rparr>)"
  by (simp add: loginUser_def findOne_def jwt_sign_def JWT_EXPIRATION_def)

lemma loginUser_credential:
  assumes "credentialOf (fst (loginUser c e em pw w)) = Some j"
  shows "\<exists>u. find (matches (ByEmail em)) (users w) = Some u \<and> isVerified u \<and>
             comparePassword c u pw \<and> claimUserId j = uid u \<and> claimRole j = role u"
proof (cases "find (matches (ByEmail em)) (users w)")
  case None
  with assms show ?thesis by (simp add: loginUser_absent)
next
  case (Some u)
  show ?thesis
  proof (cases "isVerified u \<and> comparePassword c u pw \<and> JWT_SECRET c \<noteq> []")
    case True
    with Some assms show ?thesis by (auto simp: loginUser_granted)
  next
    case False
    with Some assms show ?thesis
      by (auto simp: loginUser_def findOne_def jwt_sign_def split: if_splits)
  qed
qed

lemma no_credential_elsewhere:
  "credentialOf (fst (registerUser c e nm em pw rl w)) = None"
  "credentialOf (fst (verifyEmail c e tok w)) = None"
  "credentialOf (fst (forgotPassword c e em w)) = None"
  "credentialOf (fst (resetPassword c e tok pw w)) = None"
  by (simp_all add: registerUser_def verifyEmail_def forgotPassword_def resetPassword_def
      sendVerificationEmail_def setVerificationToken_def sendEmail_def save_def findOne_def
      Let_def split: option.split prod.split)

text \<open>
  C3. When the collection returns an unverified account for the identity, \<open>loginUser\<close>
  answers with the email-not-verified error, whatever the password. When it returns no
  account, or a verified account whose password does not match, the answer is the same
  invalid-credentials error. An answer of \<open>loginUser\<close> that carries a credential was
  issued to a verified account, and no other handler answers with a credential.
\<close>

theorem login_gate:
  "(find (matches (ByEmail em)) (users w) = Some u \<and> \<not> isVerified u \<longrightarrow>
      fst (loginUser c e em pw w) =
        Json 403 (Error ''Email not verified. Please check your inbox.''))
   \<and> (find (matches (ByEmail em)) (users w) = None \<longrightarrow>
      fst (loginUser c e em pw w) = Json 401 (Error ''Invalid email or password''))
   \<and> (find (matches (ByEmail em)) (users w) = Some u \<and> isVerified u \<and>
        \<not> comparePassword c u pw \<longrightarrow>
      fst (loginUser c e em pw w) = Json 401 (Error ''Invalid email or password''))
   \<and> (credentialOf (fst (loginUser c e em pw w)) = Some j \<longrightarrow>
        (\<exists>v. find (matches (ByEmail em)) (users w) = Some v \<and> isVerified v \<and>
             claimUserId j = uid v))
   \<and> credentialOf (fst (registerUser c e nm em pw rl w)) = None
   \<and> credentialOf (fst (verifyEmail c e tok w)) = None
   \<and> credentialOf (fst (forgotPassword c e em w)) = None
   \<and> credentialOf (fst (resetPassword c e tok pw w)) = None"
  using loginUser_credential [of c e em pw w j]
  by (auto simp: loginUser_absent loginUser_unverified loginUser_mismatch
      no_credential_elsewhere)

text \<open>
  Witness for C3: unverified alice, unknown carol, bob with a wrong password, and bob with
  the right one.
\<close>

theorem login_gate_witness:
  "find (matches (ByEmail ''alice@example.com'')) (users demoWorld) = Some alice \<and>
   \<not> isVerified alice \<and>
   fst (loginUser demoCfg demoEnv ''alice@example.com'' ''old'' demoWorld) =
     Json 403 (Error ''Email not verified. Please check your inbox.'') \<and>
   find (matches (ByEmail ''carol@example.com'')) (users bobWorld) = None \<and>
   fst (loginUser demoCfg demoEnv ''carol@example.com'' ''old'' bobWorld) =
     Json 401 (Error ''Invalid email or password'') \<and>
   find (matches (ByEmail ''bob@example.com'')) (users bobWorld) = Some bob \<and>
   isVerified bob \<and> \<not> comparePassword demoCfg bob ''bad'' \<and>
   fst (loginUser demoCfg demoEnv ''bob@example.com'' ''bad'' bobWorld) =
     Json 401 (Error ''Invalid email or password'') \<and>
   credentialOf (fst (loginUser demoCfg demoEnv ''bob@example.com'' ''old'' bobWorld)) =
     Some \<lparr>claimUserId = 7, claimRole = ''admin'', claimIat = 1, claimExp = 86401,
           signingKey = ''k''\<rparr> \<and>
   isVerified bob \<and> uid bob = 7"
proof -
  have a: "find (matches (ByEmail ''alice@example.com'')) (users demoWorld) = Some alice"
    "\<not> isVerified alice"
    by (simp_all add: demo_defs matches_def)
  have n: "find (matches (ByEmail ''carol@example.com'')) (users bobWorld) = None"
    by (simp add: demo_defs matches_def)
  have b: "find (matches (ByEmail ''bob@example.com'')) (users bobWorld) = Some bob"
    "isVerified bob" "\<not> comparePassword demoCfg bob ''bad''" "uid bob = 7"
    by (simp_all add: demo_defs matches_def comparePassword_def)
  have g: "credentialOf (fst (loginUser demoCfg demoEnv ''bob@example.com'' ''old'' bobWorld)) =
     Some \<lparr>claimUserId = 7, claimRole = ''admin'', claimIat = 1, claimExp = 86401,
           signingKey = ''k''\<rparr>"
    by (simp add: demo_defs matches_def comparePassword_def loginUser_def findOne_def
        jwt_sign_def JWT_EXPIRATION_def)
  show ?thesis
    using a n b g
      login_gate [of "''alice@example.com''" demoWorld alice demoCfg demoEnv "''old''"]
      login_gate [of "''carol@example.com''" bobWorld bob demoCfg demoEnv "''old''"]
      login_gate [of "''bob@example.com''" bobWorld bob demoCfg demoEnv "''bad''"]
      login_gate [of "''bob@example.com''" bobWorld bob demoCfg demoEnv "''old''"
        "\<lparr>claimUserId = 7, claimRole = ''admin'', claimIat = 1, claimExp = 86401,
           signingKey = ''k''\<rparr>"]
    by simp
qed

text \<open>
  C4 (amended). For a verified account and a matching password (the signing key being
  configured), \<open>loginUser\<close> answers 200 with a credential, also set as the cookie, whose
  claims are the account's document identifier (\<^verbatim>\<open>userId: user._id\<close>) and its role,
  issued at the current second and expiring one day (86400 seconds) later. The credential
  is made of these values and the signing key only: the identity the account logs in
  with, its email, is not among the claims.
\<close>

theorem login_success:
  assumes "find (matches (ByEmail em)) (users w) = Some u" and "isVerified u"
    and "comparePassword c u pw" and "JWT_SECRET c \<noteq> []"
  shows "\<exists>ck j. fst (loginUser c e em pw w) = CookieJson ck 200 (MessageToken ''Login successful'' j)
           \<and> cookieValue ck = j \<and> maxAge ck = 24 * 60 * 60 * 1000
           \<and> claimUserId j = uid u \<and> claimRole j = role u
           \<and> claimIat j = now e div 1000 \<and> claimExp j = claimIat j + 24 * 60 * 60
           \<and> signingKey j = JWT_SECRET c
           \<and> j = \<lparr>claimUserId = uid u, claimRole = role u, claimIat = now e div 1000,
                  claimExp = now e div 1000 + 24 * 60 * 60, signingKey = JWT_SECRET c\<rparr>
           \<and> credentialOf (fst (loginUser c e em pw w)) = Some j"
  using assms by (simp add: loginUser_granted)

text \<open>Witness for C4: bob logs in with his password.\<close>

theorem login_success_witness:
  "find (matches (ByEmail ''bob@example.com'')) (users bobWorld) = Some bob \<and>
   isVerified bob \<and> comparePassword demoCfg bob ''old'' \<and> JWT_SECRET demoCfg \<noteq> [] \<and>
   (\<exists>ck j. fst (loginUser demoCfg demoEnv ''bob@example.com'' ''old'' bobWorld) =
              CookieJson ck 200 (MessageToken ''Login successful'' j) \<and>
            claimUserId j = 7 \<and> claimRole j = ''admin'' \<and> claimExp j = claimIat j + 24 * 60 * 60)"
proof -
  have b: "find (matches (ByEmail ''bob@example.com'')) (users bobWorld) = Some bob"
    "isVerified bob" "comparePassword demoCfg bob ''old''" "JWT_SECRET demoCfg \<noteq> []"
    "uid bob = 7" "role bob = ''admin''"
    by (simp_all add: demo_defs matches_def comparePassword_def)
  from login_success [OF b(1-4), of demoEnv] b show ?thesis by auto
qed

text \<open>
  Counterexample to C4 as stated. Two accounts that differ in their identity, the email,
  and in nothing else log in and receive the same credential: its claims are the document
  identifier and the role, and the identity is not embedded.
\<close>

theorem login_credential_omits_identity_counterexample:
  "email bob \<noteq> email (bob\<lparr>email := ''rob@example.com''\<rparr>) \<and>
   credentialOf (fst (loginUser demoCfg demoEnv ''bob@example.com'' ''old'' bobWorld)) =
     Some \<lparr>claimUserId = 7, claimRole = ''admin'', claimIat = 1, claimExp = 86401,
           signingKey = ''k''\<rparr> \<and>
   credentialOf (fst (loginUser demoCfg demoEnv ''rob@example.com'' ''old''
                        \<lparr>users = [bob\<lparr>email := ''rob@example.com''\<rparr>], trace = []\<rparr>)) =
     Some \<lparr>claimUserId = 7, claimRole = ''admin'', claimIat = 1, claimExp = 86401,
           signingKey = ''k''\<rparr>"
  by (simp add: demo_defs matches_def comparePassword_def loginUser_def findOne_def
      jwt_sign_def JWT_EXPIRATION_def)

section \<open>Issuing a token\<close>

lemma withToken_fields:
  "uid (withToken c e u) = uid u" "email (withToken c e u) = email u"
  "name (withToken c e u) = name u" "role (withToken c e u) = role u"
  "isVerified (withToken c e u) = isVerified u"
  "verificationToken (withToken c e u) = Some (randomHex e)"
  "verificationTokenExpires (withToken c e u) = Some (now e + 60 * 60 * 1000)"
  by (simp_all add: withToken_def preSave_fields generateToken_def TOKEN_EXPIRATION_MS_def)

lemma sendVerificationEmail_eq:
  "sendVerificationEmail c e u w =
     (mailOk e,
      w\<lparr>users := persist (withToken c e u) (users w),
        trace := trace w @ [Saved (withToken c e u),
                            if mailOk e then Sent (verificationMail c e u)
                            else SendFailed (verificationMail c e u)]\<rparr>)"
  by (simp add: sendVerificationEmail_def setVerificationToken_def save_def sendEmail_def
      Let_def withToken_def verificationMail_def preSave_fields tokenText_def)

lemma registerUser_new:
  assumes "find (matches (ByEmail em)) (users w) = None"
  shows "registerUser c e nm em pw rl w =
     (if mailOk e then Json 201 (Message ''Verification email sent. Please check your inbox.'')
      else Next DispatchFailure,
      w\<lparr>users := persist (withToken c e (newUser e nm em pw rl)) (users w),
        trace := trace w @ [Queried (ByEmail em), Saved (withToken c e (newUser e nm em pw rl)),
                            if mailOk e then Sent (verificationMail c e (newUser e nm em pw rl))
                            else SendFailed (verificationMail c e (newUser e nm em pw rl))]\<rparr>)"
  using assms
  by (simp add: registerUser_def findOne_def sendVerificationEmail_eq newUser_def)

lemma registerUser_verified:
  assumes "find (matches (ByEmail em)) (users w) = Some u" and "isVerified u"
  shows "registerUser c e nm em pw rl w =
     (Json 400 (Error ''Email already verified. Please log in.''),
      w\<lparr>trace := trace w @ [Queried (ByEmail em)]\<rparr>)"
  using assms by (simp add: registerUser_def findOne_def)

lemma registerUser_pending:
  assumes "find (matches (ByEmail em)) (users w) = Some u" and "\<not> isVerified u"
  shows "registerUser c e nm em pw rl w =
     (if mailOk e then Json 200 (Message ''Verification email resent. Please check your inbox.'')
      else Next DispatchFailure,
      w\<lparr>users := persist (withToken c e u) (users w),
        trace := trace w @ [Queried (ByEmail em), Saved (withToken c e u),
                            if mailOk e then Sent (verificationMail c e u)
                            else SendFailed (verificationMail c e u)]\<rparr>)"
  using assms by (simp add: registerUser_def findOne_def sendVerificationEmail_eq)

lemma forgotPassword_absent:
  assumes "find (matches (ByEmail em)) (users w) = None"
  shows "forgotPassword c e em w =
     (Json 200 (Message ''If a user exists with that email, a reset link has been sent.''),
      w\<lparr>trace := trace w @ [Queried (ByEmail em)]\<rparr>)"
  using assms by (simp add: forgotPassword_def findOne_def)

lemma forgotPassword_present:
  assumes "find (matches (ByEmail em)) (users w) = Some u"
  shows "forgotPassword c e em w =
     (if mailOk e
      then Json 200 (Message ''If a user exists with that email, a reset link has been sent.'')
      else Next DispatchFailure,
      w\<lparr>users := persist (withToken c e u) (users w),
        trace := trace w @ [Queried (ByEmail em), Saved (withToken c e u),
                            if mailOk e then Sent (resetMail c e u)
                            else SendFailed (resetMail c e u)]\<rparr>)"
  using assms
  by (simp add: forgotPassword_def findOne_def save_def sendEmail_def Let_def withToken_def
      resetMail_def preSave_fields tokenText_def)


lemma find_unique:
  "x \<in> set xs \<Longrightarrow> P x \<Longrightarrow> (\<And>y. y \<in> set xs \<Longrightarrow> P y \<Longrightarrow> y = x) \<Longrightarrow> find P xs = Some x"
proof (cases "find P xs")
  case None
  assume "x \<in> set xs" "P x"
  with None show ?thesis by (simp add: find_None_iff)
next
  case (Some y)
  assume "\<And>y. y \<in> set xs \<Longrightarrow> P y \<Longrightarrow> y = x"
  with Some find_mem [OF Some] show ?thesis by simp
qed

lemma issued_token_found:
  assumes ok: "storeOk xs"
    and fresh: "\<And>v. v \<in> set xs \<Longrightarrow> verificationToken v \<noteq> Some t"
    and d: "verificationToken d = Some t" "verificationTokenExpires d = Some x" "n < x"
  shows "find (matches (ByToken t n)) (persist d xs) = Some d"
proof (rule find_unique)
  show "d \<in> set (persist d xs)" by (rule persist_mem)
  show "matches (ByToken t n) d" using d by (simp add: matches_token)
  fix y assume "y \<in> set (persist d xs)" and "matches (ByToken t n) y"
  then show "y = d" using persist_subset [of y d xs] fresh [of y] by (auto simp: matches_token)
qed

lemma storeOk_persist:
  assumes ok: "storeOk xs"
    and tok: "\<And>v. v \<in> set xs \<Longrightarrow> uid v \<noteq> uid d \<Longrightarrow> verificationToken d = None \<or> verificationToken v \<noteq> verificationToken d"
  shows "storeOk (persist d xs)"
  unfolding storeOk_def
proof (intro conjI ballI impI)
  show "distinct (map uid (persist d xs))"
    using ok by (simp add: persist_distinct storeOk_distinct)
  fix a b assume a: "a \<in> set (persist d xs)" and b: "b \<in> set (persist d xs)"
    and eq: "verificationToken a \<noteq> None \<and> verificationToken a = verificationToken b"
  have dd: "distinct (map uid xs)" using ok by (rule storeOk_distinct)
  from eq have na: "verificationToken a \<noteq> None"
    and ab: "verificationToken a = verificationToken b" by blast+
  from na obtain t where ta: "verificationToken a = Some t" by auto
  with ab have tb: "verificationToken b = Some t" by simp
  consider "a = d" "b = d" | "a = d" "b \<noteq> d" | "a \<noteq> d" "b = d" | "a \<noteq> d" "b \<noteq> d" by blast
  then show "uid a = uid b"
  proof cases
    case 1 then show ?thesis by simp
  next
    case 2
    with b dd have "b \<in> set xs" "uid b \<noteq> uid d" using persist_other [of xs b d] by auto
    with tok [of b] ta tb 2 show ?thesis by auto
  next
    case 3
    with a dd have "a \<in> set xs" "uid a \<noteq> uid d" using persist_other [of xs a d] by auto
    with tok [of a] ta tb 3 show ?thesis by auto
  next
    case 4
    with a b dd have "a \<in> set xs" "b \<in> set xs"
      using persist_other [of xs a d] persist_other [of xs b d] by auto
    then show ?thesis using storeOk_token [OF ok _ _ ta tb] by simp
  qed
qed

section \<open>The handlers keep the invariant\<close>

text \<open>
  Every handler takes a collection satisfying \<open>storeOk\<close> to one satisfying it, provided
  a token it issues is not already held by a document.
\<close>

lemma storeOk_issue:
  assumes "storeOk xs" and "\<forall>v\<in>set xs. verificationToken v \<noteq> Some (randomHex e)"
  shows "storeOk (persist (withToken c e u) xs)"
  using assms by (intro storeOk_persist) (auto simp: withToken_fields)

lemma storeOk_clear:
  assumes "storeOk xs" and "verificationToken d = None"
  shows "storeOk (persist d xs)"
  using assms by (intro storeOk_persist) auto

lemma storeOk_verifyEmail:
  assumes "storeOk (users w)"
  shows "storeOk (users (snd (verifyEmail c e tok w)))"
proof (cases "tokenMissing tok")
  case True
  with assms show ?thesis by (simp add: verifyEmail_def)
next
  case False
  then obtain t where t: "tok = Some t" "t \<noteq> []"
    by (auto simp: tokenMissing_def split: option.splits)
  show ?thesis
  proof (cases "find (matches (ByToken t (now e))) (users w)")
    case None
    with assms t show ?thesis by (simp add: verifyEmail_miss)
  next
    case (Some u)
    with assms t show ?thesis
      by (simp add: verifyEmail_hit [OF t(2) Some refl] storeOk_clear preSave_fields)
  qed
qed

lemma storeOk_resetPassword:
  assumes "storeOk (users w)"
  shows "storeOk (users (snd (resetPassword c e tok pw w)))"
proof (cases "tokenMissing tok")
  case True
  with assms show ?thesis by (simp add: resetPassword_def)
next
  case False
  then obtain t where t: "tok = Some t" "t \<noteq> []"
    by (auto simp: tokenMissing_def split: option.splits)
  show ?thesis
  proof (cases "find (matches (ByToken t (now e))) (users w)")
    case None
    with assms t show ?thesis by (simp add: resetPassword_miss)
  next
    case (Some u)
    with assms t show ?thesis
      by (simp add: resetPassword_hit [OF t(2) Some refl] storeOk_clear preSave_fields)
  qed
qed

lemma storeOk_registerUser:
  assumes "storeOk (users w)" and "\<forall>v\<in>set (users w). verificationToken v \<noteq> Some (randomHex e)"
  shows "storeOk (users (snd (registerUser c e nm em pw rl w)))"
proof (cases "find (matches (ByEmail em)) (users w)")
  case None
  with assms show ?thesis by (simp add: registerUser_new storeOk_issue)
next
  case (Some u)
  with assms show ?thesis
    by (cases "isVerified u") (simp_all add: registerUser_verified registerUser_pending storeOk_issue)
qed

lemma storeOk_forgotPassword:
  assumes "storeOk (users w)" and "\<forall>v\<in>set (users w). verificationToken v \<noteq> Some (randomHex e)"
  shows "storeOk (users (snd (forgotPassword c e em w)))"
proof (cases "find (matches (ByEmail em)) (users w)")
  case None
  with assms show ?thesis by (simp add: forgotPassword_absent)
next
  case (Some u)
  with assms show ?thesis by (simp add: forgotPassword_present storeOk_issue)
qed

lemma storeOk_loginUser:
  "storeOk (users w) \<Longrightarrow> storeOk (users (snd (loginUser c e em pw w)))"
  by (simp add: loginUser_world)

section \<open>Registration\<close>

lemma old_token_dead:
  assumes ok: "storeOk (users w)"
    and u: "u \<in> set (users w)" "verificationToken u = Some told"
    and new: "randomHex e \<noteq> told"
  shows "find (matches (ByToken told n)) (persist (withToken c e u) (users w)) = None"
  using token_gone [OF ok u, of "withToken c e u" n] new by (simp add: withToken_fields)

lemma not_verifying:
  assumes "find (matches (ByToken t (now e))) (users w) = None"
  shows "fst (verifyEmail c e (Some t) w)
           \<noteq> Json 200 (Message ''Email verified successfully. You can now log in.'')"
proof (cases "t = []")
  case True
  then show ?thesis by (simp add: verifyEmail_empty)
next
  case False
  with assms show ?thesis by (simp add: verifyEmail_miss)
qed

lemma not_resetting:
  assumes "find (matches (ByToken t (now e))) (users w) = None"
  shows "fst (resetPassword c e (Some t) pw w) \<noteq> Json 200 (Message ''Password reset successfully.'')"
proof (cases "t = []")
  case True
  then show ?thesis by (simp add: resetPassword_empty)
next
  case False
  with assms show ?thesis by (simp add: resetPassword_miss)
qed





lemma withToken_mailOk: "withToken c (e\<lparr>mailOk := b\<rparr>) u = withToken c e u"
  by (simp add: withToken_def preSave_def generateToken_def split: passwordField.split)

lemma newUser_mailOk: "newUser (e\<lparr>mailOk := b\<rparr>) nm em pw rl = newUser e nm em pw rl"
  by (simp add: newUser_def)

lemma registerUser_issue:
  assumes "case find (matches (ByEmail em)) (users w) of None \<Rightarrow> True | Some u \<Rightarrow> \<not> isVerified u"
  obtains u where
    "registerUser c e nm em pw rl w =
       (if mailOk e
        then Json (if find (matches (ByEmail em)) (users w) = None then 201 else 200)
               (Message (if find (matches (ByEmail em)) (users w) = None
                         then ''Verification email sent. Please check your inbox.''
                         else ''Verification email resent. Please check your inbox.''))
        else Next DispatchFailure,
        w\<lparr>users := persist (withToken c e u) (users w),
          trace := trace w @ [Queried (ByEmail em), Saved (withToken c e u),
                              if mailOk e then Sent (verificationMail c e u)
                              else SendFailed (verificationMail c e u)]\<rparr>)"
    and "u = (case find (matches (ByEmail em)) (users w) of
                None \<Rightarrow> newUser e nm em pw rl | Some v \<Rightarrow> v)"
proof (cases "find (matches (ByEmail em)) (users w)")
  case None
  show ?thesis
    by (rule that [of "newUser e nm em pw rl"]) (simp_all add: None registerUser_new)
next
  case (Some v)
  with assms have "\<not> isVerified v" by simp
  show ?thesis
    by (rule that [of v]) (simp_all add: Some registerUser_pending [OF Some \<open>\<not> isVerified v\<close>])
qed

text \<open>
  C6. When \<open>registerUser\<close> issues a token (no account, or an unverified one), the effects
  are, in this order: the query, the save of the document holding the token, and then the
  attempt to send the mail whose link embeds that same token. If the dispatch fails the
  handler passes the failure on, and the collection is exactly what it is when the
  dispatch succeeds: the saved token is kept.
\<close>

theorem register_persists_before_dispatch:
  assumes "case find (matches (ByEmail em)) (users w) of None \<Rightarrow> True | Some u \<Rightarrow> \<not> isVerified u"
  shows "\<exists>d m. trace (snd (registerUser c e nm em pw rl w)) =
                 trace w @ [Queried (ByEmail em), Saved d,
                            if mailOk e then Sent m else SendFailed m]
           \<and> d \<in> set (users (snd (registerUser c e nm em pw rl w)))
           \<and> verificationToken d = Some (randomHex e)
           \<and> verificationTokenExpires d = Some (now e + 60 * 60 * 1000)
           \<and> rcpt m = email d
           \<and> link m = FRONTEND_URL c @ ''/api/users/verify-email?token='' @ randomHex e
           \<and> (\<not> mailOk e \<longrightarrow> fst (registerUser c e nm em pw rl w) = Next DispatchFailure)
           \<and> users (snd (registerUser c e nm em pw rl w)) =
               users (snd (registerUser c (e\<lparr>mailOk := True\<rparr>) nm em pw rl w))"
proof -
  obtain u where r: "registerUser c e nm em pw rl w =
       (if mailOk e
        then Json (if find (matches (ByEmail em)) (users w) = None then 201 else 200)
               (Message (if find (matches (ByEmail em)) (users w) = None
                         then ''Verification email sent. Please check your inbox.''
                         else ''Verification email resent. Please check your inbox.''))
        else Next DispatchFailure,
        w\<lparr>users := persist (withToken c e u) (users w),
          trace := trace w @ [Queried (ByEmail em), Saved (withToken c e u),
                              if mailOk e then Sent (verificationMail c e u)
                              else SendFailed (verificationMail c e u)]\<rparr>)"
    and u: "u = (case find (matches (ByEmail em)) (users w) of
                None \<Rightarrow> newUser e nm em pw rl | Some v \<Rightarrow> v)"
    using registerUser_issue [OF assms, of c e nm pw rl] by blast
  obtain u' where r': "registerUser c (e\<lparr>mailOk := True\<rparr>) nm em pw rl w =
       (if mailOk (e\<lparr>mailOk := True\<rparr>)
        then Json (if find (matches (ByEmail em)) (users w) = None then 201 else 200)
               (Message (if find (matches (ByEmail em)) (users w) = None
                         then ''Verification email sent. Please check your inbox.''
                         else ''Verification email resent. Please check your inbox.''))
        else Next DispatchFailure,
        w\<lparr>users := persist (withToken c (e\<lparr>mailOk := True\<rparr>) u') (users w),
          trace := trace w @ [Queried (ByEmail em), Saved (withToken c (e\<lparr>mailOk := True\<rparr>) u'),
                              if mailOk (e\<lparr>mailOk := True\<rparr>)
                              then Sent (verificationMail c (e\<lparr>mailOk := True\<rparr>) u')
                              else SendFailed (verificationMail c (e\<lparr>mailOk := True\<rparr>) u')]\<rparr>)"
    and u': "u' = (case find (matches (ByEmail em)) (users w) of
                None \<Rightarrow> newUser (e\<lparr>mailOk := True\<rparr>) nm em pw rl | Some v \<Rightarrow> v)"
    using registerUser_issue [OF assms, of c "e\<lparr>mailOk := True\<rparr>" nm pw rl] by blast
  have same: "u' = u" using u u' by (simp add: newUser_mailOk split: option.split)
  have "trace (snd (registerUser c e nm em pw rl w)) =
          trace w @ [Queried (ByEmail em), Saved (withToken c e u),
                     if mailOk e then Sent (verificationMail c e u)
                     else SendFailed (verificationMail c e u)]"
    by (simp add: r)
  moreover have "withToken c e u \<in> set (users (snd (registerUser c e nm em pw rl w)))"
    by (simp add: r persist_mem)
  moreover have "rcpt (verificationMail c e u) = email (withToken c e u)"
    "link (verificationMail c e u) =
       FRONTEND_URL c @ ''/api/users/verify-email?token='' @ randomHex e"
    by (simp_all add: verificationMail_def withToken_fields generateToken_def)
  moreover have "\<not> mailOk e \<longrightarrow> fst (registerUser c e nm em pw rl w) = Next DispatchFailure"
    by (simp add: r)
  moreover have "users (snd (registerUser c e nm em pw rl w)) =
               users (snd (registerUser c (e\<lparr>mailOk := True\<rparr>) nm em pw rl w))"
    by (simp add: r r' same withToken_mailOk)
  ultimately show ?thesis
    using withToken_fields(6,7) [of c e u] by blast
qed

text \<open>
  Witness for C6: the mail to alice fails; her document holds the new token \<open>T2\<close>, saved
  before the failed attempt.
\<close>

theorem register_persists_before_dispatch_witness:
  "(case find (matches (ByEmail ''alice@example.com'')) (users demoWorld) of
      None \<Rightarrow> True | Some u \<Rightarrow> \<not> isVerified u) \<and>
   registerUser demoCfg (demoEnv\<lparr>mailOk := False\<rparr>) ''Alice'' ''alice@example.com'' ''pw''
       ''student'' demoWorld =
     (Next DispatchFailure,
      \<lparr>users = [alice\<lparr>verificationToken := Some ''T2'',
                       verificationTokenExpires := Some 3601000\<rparr>],
       trace = [Queried (ByEmail ''alice@example.com''),
                Saved (alice\<lparr>verificationToken := Some ''T2'',
                              verificationTokenExpires := Some 3601000\<rparr>),
                SendFailed \<lparr>rcpt = ''alice@example.com'', subject = ''Verify Your Email'',
                            greeting = ''Alice'',
                            link = ''http://h/api/users/verify-email?token=T2''\<rparr>]\<rparr>)"
proof -
  have h: "case find (matches (ByEmail ''alice@example.com'')) (users demoWorld) of
      None \<Rightarrow> True | Some u \<Rightarrow> \<not> isVerified u"
    by (simp add: demo_defs matches_def)
  have "fst (registerUser demoCfg (demoEnv\<lparr>mailOk := False\<rparr>) ''Alice'' ''alice@example.com''
          ''pw'' ''student'' demoWorld) = Next DispatchFailure"
    using register_persists_before_dispatch [OF h, of demoCfg "demoEnv\<lparr>mailOk := False\<rparr>"
        "''Alice''" "''pw''" "''student''"]
    by (auto simp: demoEnv_def)
  moreover have "snd (registerUser demoCfg (demoEnv\<lparr>mailOk := False\<rparr>) ''Alice''
          ''alice@example.com'' ''pw'' ''student'' demoWorld) =
      \<lparr>users = [alice\<lparr>verificationToken := Some ''T2'',
                       verificationTokenExpires := Some 3601000\<rparr>],
       trace = [Queried (ByEmail ''alice@example.com''),
                Saved (alice\<lparr>verificationToken := Some ''T2'',
                              verificationTokenExpires := Some 3601000\<rparr>),
                SendFailed \<lparr>rcpt = ''alice@example.com'', subject = ''Verify Your Email'',
                            greeting = ''Alice'',
                            link = ''http://h/api/users/verify-email?token=T2''\<rparr>]\<rparr>"
    by (simp add: demo_defs registerUser_def findOne_def sendVerificationEmail_def
        setVerificationToken_def save_def preSave_def sendEmail_def matches_def Let_def
        generateToken_def TOKEN_EXPIRATION_MS_def tokenText_def)
  ultimately show ?thesis using h by (simp add: prod_eq_iff)
qed

section \<open>One token slot per account\<close>

lemma issue_world:
  assumes u: "find (matches (ByEmail em)) (users w) = Some u"
    and op: "r = registerUser c e nm em pw rl w \<and> \<not> isVerified u \<or> r = forgotPassword c e em w"
  shows "users (snd r) = persist (withToken c e u) (users w)"
  using op by (auto simp: registerUser_pending [OF u] forgotPassword_present [OF u])

text \<open>
  C9. An account has one token slot. When \<open>registerUser\<close> (on an unverified account) or
  \<open>forgotPassword\<close> issues a token that no document holds yet, the account is saved with
  that token and its expiry one hour ahead in place of whatever the slot held, and the
  tokens of the collection still do not repeat. The token the slot held before, whatever
  it was issued for, matches no account afterwards and is refused by \<open>verifyEmail\<close> and
  by \<open>resetPassword\<close>; the new token is accepted by both until its expiry.
\<close>

theorem one_outstanding_token:
  assumes ok: "storeOk (users w)"
    and u: "find (matches (ByEmail em)) (users w) = Some u"
    and op: "r = registerUser c e nm em pw rl w \<and> \<not> isVerified u \<or> r = forgotPassword c e em w"
    and fresh: "\<forall>v\<in>set (users w). verificationToken v \<noteq> Some (randomHex e)"
  shows "\<exists>d. users (snd r) = persist d (users w) \<and> d \<in> set (users (snd r)) \<and>
             uid d = uid u \<and> verificationToken d = Some (randomHex e) \<and>
             verificationTokenExpires d = Some (now e + 60 * 60 * 1000) \<and>
             storeOk (users (snd r)) \<and>
             (verificationToken u = Some told \<longrightarrow>
                find (matches (ByToken told (now e3))) (users (snd r)) = None \<and>
                fst (verifyEmail c e3 (Some told) (snd r))
                  \<noteq> Json 200 (Message ''Email verified successfully. You can now log in.'') \<and>
                fst (resetPassword c e3 (Some told) pw3 (snd r))
                  \<noteq> Json 200 (Message ''Password reset successfully.'')) \<and>
             (randomHex e \<noteq> [] \<and> now e2 < now e + 60 * 60 * 1000 \<longrightarrow>
                find (matches (ByToken (randomHex e) (now e2))) (users (snd r)) = Some d \<and>
                fst (verifyEmail c e2 (Some (randomHex e)) (snd r))
                  = Json 200 (Message ''Email verified successfully. You can now log in.'') \<and>
                fst (resetPassword c e2 (Some (randomHex e)) pw2 (snd r))
                  = Json 200 (Message ''Password reset successfully.''))"
proof -
  define d where "d = withToken c e u"
  have us: "users (snd r) = persist d (users w)"
    using issue_world [OF u op] by (simp add: d_def)
  have uin: "u \<in> set (users w)"
    using find_mem [OF u] by simp
  have f: "uid d = uid u" "verificationToken d = Some (randomHex e)"
    "verificationTokenExpires d = Some (now e + 60 * 60 * 1000)"
    by (simp_all add: d_def withToken_fields)
  have fr: "verificationToken v \<noteq> Some (randomHex e)" if "v \<in> set (users w)" for v
    using fresh that by blast
  have inv: "storeOk (users (snd r))"
    unfolding us
  proof (rule storeOk_persist [OF ok])
    fix v assume "v \<in> set (users w)" "uid v \<noteq> uid d"
    then show "verificationToken d = None \<or> verificationToken v \<noteq> verificationToken d"
      using fr [of v] f by simp
  qed
  have old: "find (matches (ByToken told (now e3))) (users (snd r)) = None \<and>
                fst (verifyEmail c e3 (Some told) (snd r))
                  \<noteq> Json 200 (Message ''Email verified successfully. You can now log in.'') \<and>
                fst (resetPassword c e3 (Some told) pw3 (snd r))
                  \<noteq> Json 200 (Message ''Password reset successfully.'')"
    if t: "verificationToken u = Some told"
  proof -
    have "randomHex e \<noteq> told" using fr [OF uin] t by auto
    then have "find (matches (ByToken told (now e3))) (users (snd r)) = None"
      unfolding us d_def using old_token_dead [OF ok uin t] by simp
    then show ?thesis by (simp add: not_verifying not_resetting)
  qed
  have new: "find (matches (ByToken (randomHex e) (now e2))) (users (snd r)) = Some d \<and>
                fst (verifyEmail c e2 (Some (randomHex e)) (snd r))
                  = Json 200 (Message ''Email verified successfully. You can now log in.'') \<and>
                fst (resetPassword c e2 (Some (randomHex e)) pw2 (snd r))
                  = Json 200 (Message ''Password reset successfully.'')"
    if ne: "randomHex e \<noteq> []" and live: "now e2 < now e + 60 * 60 * 1000"
  proof -
    have hit: "find (matches (ByToken (randomHex e) (now e2))) (users (snd r)) = Some d"
      unfolding us using issued_token_found [OF ok fr f(2) f(3) live] by simp
    then show ?thesis
      using ne by (simp add: verifyEmail_success_iff resetPassword_success_iff)
  qed
  have "d \<in> set (users (snd r))" by (simp add: us persist_mem)
  with us f inv old new show ?thesis by blast
qed

text \<open>
  Witness for C9: alice's verification token \<open>T1\<close> is dead after a password-reset
  request and after a second registration, and the new token \<open>T2\<close> is accepted.
\<close>

theorem one_outstanding_token_witness:
  "fst (verifyEmail demoCfg demoEnv (Some ''T1'') demoWorld) =
     Json 200 (Message ''Email verified successfully. You can now log in.'') \<and>
   fst (verifyEmail demoCfg demoEnv (Some ''T1'')
          (snd (forgotPassword demoCfg demoEnv ''alice@example.com'' demoWorld)))
     \<noteq> Json 200 (Message ''Email verified successfully. You can now log in.'') \<and>
   fst (resetPassword demoCfg demoEnv (Some ''T2'') ''new''
          (snd (forgotPassword demoCfg demoEnv ''alice@example.com'' demoWorld)))
     = Json 200 (Message ''Password reset successfully.'') \<and>
   fst (resetPassword demoCfg demoEnv (Some ''T1'') ''new''
          (snd (registerUser demoCfg demoEnv ''Alice'' ''alice@example.com'' ''pw'' ''student''
                  demoWorld)))
     \<noteq> Json 200 (Message ''Password reset successfully.'') \<and>
   fst (verifyEmail demoCfg demoEnv (Some ''T2'')
          (snd (registerUser demoCfg demoEnv ''Alice'' ''alice@example.com'' ''pw'' ''student''
                  demoWorld)))
     = Json 200 (Message ''Email verified successfully. You can now log in.'')"
proof -
  have ok: "storeOk (users demoWorld)" by (simp add: storeOk_def demo_defs)
  have a: "find (matches (ByEmail ''alice@example.com'')) (users demoWorld) = Some alice"
    by (simp add: demo_defs matches_def)
  have na: "\<not> isVerified alice" and t: "verificationToken alice = Some ''T1''"
    by (simp_all add: demo_defs)
  have fresh: "\<forall>v\<in>set (users demoWorld). verificationToken v \<noteq> Some (randomHex demoEnv)"
    by (simp add: demo_defs)
  have live: "randomHex demoEnv \<noteq> [] \<and> now demoEnv < now demoEnv + 60 * 60 * 1000"
    "randomHex demoEnv = ''T2''"
    by (simp_all add: demo_defs)
  have v: "fst (verifyEmail demoCfg demoEnv (Some ''T1'') demoWorld) =
     Json 200 (Message ''Email verified successfully. You can now log in.'')"
    by (simp add: demo_defs verifyEmail_def tokenMissing_def findOne_def save_def preSave_def
        matches_def Let_def)
  have 1: "fst (verifyEmail demoCfg demoEnv (Some ''T1'')
          (snd (forgotPassword demoCfg demoEnv ''alice@example.com'' demoWorld)))
     \<noteq> Json 200 (Message ''Email verified successfully. You can now log in.'') \<and>
   fst (resetPassword demoCfg demoEnv (Some ''T2'') ''new''
          (snd (forgotPassword demoCfg demoEnv ''alice@example.com'' demoWorld)))
     = Json 200 (Message ''Password reset successfully.'')"
    using one_outstanding_token [OF ok a _ fresh,
        of "forgotPassword demoCfg demoEnv ''alice@example.com'' demoWorld" demoCfg
          "''Alice''" "''pw''" "''student''" "''T1''" demoEnv "''new''" demoEnv "''new''"]
      t live
    by auto
  have 2: "fst (resetPassword demoCfg demoEnv (Some ''T1'') ''new''
          (snd (registerUser demoCfg demoEnv ''Alice'' ''alice@example.com'' ''pw'' ''student''
                  demoWorld)))
     \<noteq> Json 200 (Message ''Password reset successfully.'') \<and>
   fst (verifyEmail demoCfg demoEnv (Some ''T2'')
          (snd (registerUser demoCfg demoEnv ''Alice'' ''alice@example.com'' ''pw'' ''student''
                  demoWorld)))
     = Json 200 (Message ''Email verified successfully. You can now log in.'')"
    using one_outstanding_token [OF ok a _ fresh,
        of "registerUser demoCfg demoEnv ''Alice'' ''alice@example.com'' ''pw'' ''student''
              demoWorld" demoCfg
          "''Alice''" "''pw''" "''student''" "''T1''" demoEnv "''new''" demoEnv "''new''"]
      t live na
    by auto
  from v 1 2 show ?thesis by simp
qed

section \<open>Password recovery\<close>

lemma forgotPassword_acknowledges:
  assumes "mailOk e"
  shows "fst (forgotPassword c e em w) =
     Json 200 (Message ''If a user exists with that email, a reset link has been sent.'')"
proof (cases "find (matches (ByEmail em)) (users w)")
  case None
  then show ?thesis by (simp add: forgotPassword_absent)
next
  case (Some u)
  with assms show ?thesis by (simp add: forgotPassword_present)
qed

text \<open>
  C7. When the mail is delivered, \<open>forgotPassword\<close> gives the same acknowledgement for
  every identity (\<open>forgotPassword_acknowledges\<close>). When the transport fails, the answers
  differ: for bob, who has an account, the handler passes the dispatch failure to the
  error middleware; for carol, who has none, it acknowledges as usual.
\<close>

theorem forgotPassword_dispatch_failure_reveals_account:
  "fst (forgotPassword demoCfg (demoEnv\<lparr>mailOk := False\<rparr>) ''bob@example.com'' bobWorld) =
     Next DispatchFailure \<and>
   fst (forgotPassword demoCfg (demoEnv\<lparr>mailOk := False\<rparr>) ''carol@example.com'' bobWorld) =
     Json 200 (Message ''If a user exists with that email, a reset link has been sent.'')"
  by (simp add: demo_defs forgotPassword_def findOne_def save_def sendEmail_def matches_def
      Let_def)

lemma reset_document:
  "preSave c e (u\<lparr>password := Plain pw, verificationToken := None,
                   verificationTokenExpires := None\<rparr>) =
     u\<lparr>password := Derived (salt e) (kdf c (salt e) pw), verificationToken := None,
       verificationTokenExpires := None\<rparr>"
  by (simp add: preSave_def)

text \<open>
  C8 (amended). For a verified account that the collection returns both for the token
  (unexpired) and for its own identity, a password reset succeeds, a login with the new
  password then succeeds with a credential for that account, and a login with any password
  whose derivation under the new salt differs from the new password's, the old password
  among them when it is a different one, gets the invalid-credentials error.
\<close>

theorem reset_then_login:
  assumes ids: "distinct (map uid (users w))"
    and tok: "t \<noteq> []" "find (matches (ByToken t (now e))) (users w) = Some u"
    and acct: "find (matches (ByEmail (email u))) (users w) = Some u"
    and ver: "isVerified u"
    and key: "JWT_SECRET c \<noteq> []"
    and differ: "kdf c (salt e) old \<noteq> kdf c (salt e) new"
  shows "fst (resetPassword c e (Some t) new w) = Json 200 (Message ''Password reset successfully.'')
       \<and> (\<exists>ck j. fst (loginUser c e2 (email u) new (snd (resetPassword c e (Some t) new w))) =
                    CookieJson ck 200 (MessageToken ''Login successful'' j) \<and>
                  claimUserId j = uid u \<and> claimRole j = role u)
       \<and> fst (loginUser c e2 (email u) old (snd (resetPassword c e (Some t) new w))) =
           Json 401 (Error ''Invalid email or password'')"
proof -
  define d where "d = u\<lparr>password := Derived (salt e) (kdf c (salt e) new),
       verificationToken := None, verificationTokenExpires := None\<rparr>"
  have r: "resetPassword c e (Some t) new w =
     (Json 200 (Message ''Password reset successfully.''),
      w\<lparr>users := persist d (users w),
        trace := trace w @ [Queried (ByToken t (now e)), Saved d]\<rparr>)"
    using resetPassword_hit [OF tok refl, of c new] by (simp add: reset_document d_def)
  have "matches (ByEmail (email u)) d" by (simp add: matches_def d_def)
  moreover have "uid d = uid u" by (simp add: d_def)
  ultimately have found: "find (matches (ByEmail (email u)))
      (users (snd (resetPassword c e (Some t) new w))) = Some d"
    using find_persist_same [OF ids acct] by (simp add: r)
  have d: "isVerified d" "comparePassword c d new" "\<not> comparePassword c d old"
    "uid d = uid u" "role d = role u"
    using ver differ by (simp_all add: d_def comparePassword_def)
  show ?thesis
    using loginUser_granted [OF found d(1) d(2) key, of e2]
      loginUser_mismatch [OF found d(1) d(3), of e2] d(4,5)
    by (simp add: r)
qed

text \<open>
  Witness for C8: bob resets with token \<open>R1\<close>, then logs in with the new password and
  is refused with the old one.
\<close>

theorem reset_then_login_witness:
  "distinct (map uid (users bobWorld)) \<and>
   find (matches (ByToken ''R1'' (now demoEnv))) (users bobWorld) = Some bob \<and>
   find (matches (ByEmail ''bob@example.com'')) (users bobWorld) = Some bob \<and>
   isVerified bob \<and> comparePassword demoCfg bob ''old'' \<and>
   fst (resetPassword demoCfg demoEnv (Some ''R1'') ''new'' bobWorld) =
     Json 200 (Message ''Password reset successfully.'') \<and>
   credentialOf (fst (loginUser demoCfg demoEnv ''bob@example.com'' ''new''
                        (snd (resetPassword demoCfg demoEnv (Some ''R1'') ''new'' bobWorld))))
     \<noteq> None \<and>
   fst (loginUser demoCfg demoEnv ''bob@example.com'' ''old''
          (snd (resetPassword demoCfg demoEnv (Some ''R1'') ''new'' bobWorld))) =
     Json 401 (Error ''Invalid email or password'')"
proof -
  have h: "distinct (map uid (users bobWorld))" "''R1'' \<noteq> []"
    "find (matches (ByToken ''R1'' (now demoEnv))) (users bobWorld) = Some bob"
    "find (matches (ByEmail (email bob))) (users bobWorld) = Some bob"
    "isVerified bob" "JWT_SECRET demoCfg \<noteq> []"
    "kdf demoCfg (salt demoEnv) ''old'' \<noteq> kdf demoCfg (salt demoEnv) ''new''"
    by (simp_all add: demo_defs matches_def)
  have e: "email bob = ''bob@example.com''" "comparePassword demoCfg bob ''old''"
    by (simp_all add: demo_defs comparePassword_def)
  from reset_then_login [OF h, of demoEnv] h e show ?thesis by auto
qed

text \<open>
  Counterexample to C8 as stated. Unverified alice holds the unexpired token \<open>T1\<close>: the
  reset succeeds, yet a login with the new password is refused as not verified, and so is
  a login with the old one (not as invalid credentials). Verified bob resets to the
  password he already had: the login with the old password succeeds.
\<close>

theorem reset_then_login_counterexample:
  "find (matches (ByToken ''T1'' (now demoEnv))) (users demoWorld) = Some alice \<and>
   fst (resetPassword demoCfg demoEnv (Some ''T1'') ''new'' demoWorld) =
     Json 200 (Message ''Password reset successfully.'') \<and>
   fst (loginUser demoCfg demoEnv ''alice@example.com'' ''new''
          (snd (resetPassword demoCfg demoEnv (Some ''T1'') ''new'' demoWorld))) =
     Json 403 (Error ''Email not verified. Please check your inbox.'') \<and>
   fst (loginUser demoCfg demoEnv ''alice@example.com'' ''old''
          (snd (resetPassword demoCfg demoEnv (Some ''T1'') ''new'' demoWorld))) =
     Json 403 (Error ''Email not verified. Please check your inbox.'') \<and>
   find (matches (ByToken ''R1'' (now demoEnv))) (users bobWorld) = Some bob \<and>
   comparePassword demoCfg bob ''old'' \<and>
   fst (resetPassword demoCfg demoEnv (Some ''R1'') ''old'' bobWorld) =
     Json 200 (Message ''Password reset successfully.'') \<and>
   fst (loginUser demoCfg demoEnv ''bob@example.com'' ''old''
          (snd (resetPassword demoCfg demoEnv (Some ''R1'') ''old'' bobWorld)))
     \<noteq> Json 401 (Error ''Invalid email or password'')"
  by (simp add: demo_defs resetPassword_def loginUser_def tokenMissing_def findOne_def save_def
      preSave_def matches_def comparePassword_def jwt_sign_def Let_def)

end
